theory Spec2Isabelle
  imports Main "HOL-Library.Sublist"
begin

section \<open>JavaScript values, errors and strings\<close>

text \<open>
  Payloads that cross the message channel are JSON-like values; a command name is
  also used as a payload (\<open>REMOTE_OPERATION_COMPLETE\<close>). A rejected promise or a thrown
  exception is a value of \<open>js_error\<close>.
\<close>

text \<open>
  The command vocabulary \<open>OneSignal.POSTMAM_COMMANDS\<close>; its string values are not in
  the sources, so each name is a constructor.
\<close>

datatype postmam_command =
    CONNECTED
  | REMOTE_RETRIGGER_EVENT
  | REMOTE_NOTIFICATION_PERMISSION_CHANGED
  | REQUEST_HOST_URL
  | SERVICEWORKER_COMMAND_REDIRECT
  | HTTP_PERMISSION_REQUEST_RESUBSCRIBE
  | IFRAME_POPUP_INITIALIZE
  | REMOTE_OPERATION_COMPLETE
  | REMOTE_DATABASE_GET
  | IS_SUBSCRIBED

datatype js_value =
    VUndefined
  | VNull
  | VBool bool
  | VString string
  | VCommand postmam_command
  | VList "js_value list"

datatype js_error = TypeError | ReferenceError | TimeoutError | StoreError string

text \<open>A promise is pending or settled; settling a settled promise changes nothing.\<close>

datatype 'a promise = Pending | Resolved 'a | Rejected js_error

definition settle :: "'a promise \<Rightarrow> 'a promise \<Rightarrow> 'a promise" where
  "settle outcome p = (case p of Pending \<Rightarrow> outcome | _ \<Rightarrow> p)"

text \<open>
  \<open>String.prototype.indexOf\<close>: the index of the first occurrence, or \<open>-1\<close>.
  \<open>String.prototype.endsWith\<close> is a suffix test.
\<close>

fun indexOf_from :: "nat \<Rightarrow> string \<Rightarrow> string \<Rightarrow> int" where
  "indexOf_from i [] pat = (if pat = [] then int i else - 1)"
| "indexOf_from i (c # cs) pat =
     (if prefix pat (c # cs) then int i else indexOf_from (Suc i) cs pat)"

definition indexOf :: "string \<Rightarrow> string \<Rightarrow> int" where
  "indexOf s pat = indexOf_from 0 s pat"

definition endsWith :: "string \<Rightarrow> string \<Rightarrow> bool" where
  "endsWith s suf = suffix suf s"

text \<open>\<open>[a, b].join('.')\<close> on two strings.\<close>

definition join_dot :: "string \<Rightarrow> string \<Rightarrow> string" where
  "join_dot a b = a @ ''.'' @ b"


section \<open>SdkEnvironment\<close>

datatype BuildEnvironmentKind = Development | Staging | Production

text \<open>
  The members of \<open>WindowEnvironmentKind\<close> that \<open>getWindowEnv\<close> returns.
\<close>

datatype WindowEnvironmentKind =
    ServiceWorker
  | Host
  | OneSignalSubscriptionPopup
  | OneSignalProxyFrame
  | CustomIframe
  | Unknown

text \<open>
  What the classifier reads of its execution context: whether \<open>window\<close> exists, and
  then whether it is its own \<open>top\<close> and what \<open>location\<close> holds; whether \<open>self\<close> exists
  and has a \<open>registration\<close>; and the build constants \<open>__DEV__\<close> and \<open>__STAGING__\<close>.
\<close>

record js_location =
  href :: string
  pathname :: string
  search :: string
  hostname :: string

record js_window =
  is_top :: bool
  location :: js_location

record js_global =
  window :: "js_window option"
  self_registration :: "bool option"
  dev_defined :: bool
  staging_defined :: bool

definition getBuildEnv :: "js_global \<Rightarrow> BuildEnvironmentKind" where
  "getBuildEnv g =
     (if dev_defined g then Development
      else if staging_defined g then Staging
      else Production)"

definition getWindowEnv :: "js_global \<Rightarrow> WindowEnvironmentKind" where
  "getWindowEnv g =
     (case window g of
        None \<Rightarrow>
          (if self_registration g = Some True then ServiceWorker else Unknown)
      | Some w \<Rightarrow>
          (if is_top w then
             (if indexOf (href (location w)) ''initOneSignal'' \<noteq> - 1 \<or>
                 ((pathname (location w) = ''/subscribe'' \<and> search (location w) = '''') \<and>
                  (endsWith (hostname (location w)) ''.onesignal.com'' \<or>
                   endsWith (hostname (location w)) ''.os.tc'' \<or>
                   (indexOf (hostname (location w)) ''.localhost'' \<noteq> - 1 \<and>
                    getBuildEnv g = Development)))
              then OneSignalSubscriptionPopup
              else Host)
           else if pathname (location w) = ''/webPushIframe'' \<or>
                   pathname (location w) = ''/webPushModal''
           then OneSignalProxyFrame
           else CustomIframe))"

text \<open>
  The classifier as the JavaScript runs it, over the state of the process: the globals
  of the execution context, the static fields that a cache would be kept in, and the
  console. A computation returns a value or throws, and hands on the state. Each
  accessor below reads one thing the source reads, and throws a ReferenceError where an
  undeclared name is dereferenced; \<open>typeof\<close> never throws. \<open>&&\<close> and \<open>||\<close> evaluate
  their right operand only when the left one does not decide.
\<close>

record process =
  globals :: js_global
  statics :: "(string \<times> js_value) list"
  console :: "string list"

type_synonym 'a js = "process \<Rightarrow> (js_error + 'a) \<times> process"

definition js_return :: "'a \<Rightarrow> 'a js" where
  "js_return x s = (Inr x, s)"

definition js_throw :: "js_error \<Rightarrow> 'a js" where
  "js_throw e s = (Inl e, s)"

definition js_bind :: "'a js \<Rightarrow> ('a \<Rightarrow> 'b js) \<Rightarrow> 'b js" where
  "js_bind m f s = (case m s of (Inl e, s1) \<Rightarrow> (Inl e, s1) | (Inr x, s1) \<Rightarrow> f x s1)"

definition js_and :: "bool js \<Rightarrow> bool js \<Rightarrow> bool js" where
  "js_and a b = js_bind a (\<lambda>x. if x then b else js_return False)"

definition js_or :: "bool js \<Rightarrow> bool js \<Rightarrow> bool js" where
  "js_or a b = js_bind a (\<lambda>x. if x then js_return True else b)"

definition typeof_window_undefined :: "bool js" where
  "typeof_window_undefined s = (Inr (window (globals s) = None), s)"

definition typeof_self_defined :: "bool js" where
  "typeof_self_defined s = (Inr (self_registration (globals s) \<noteq> None), s)"

definition typeof_self_registration_defined :: "bool js" where
  "typeof_self_registration_defined s =
     (case self_registration (globals s) of
        None \<Rightarrow> (Inl ReferenceError, s)
      | Some b \<Rightarrow> (Inr b, s))"

definition typeof_DEV_defined :: "bool js" where
  "typeof_DEV_defined s = (Inr (dev_defined (globals s)), s)"

definition typeof_STAGING_defined :: "bool js" where
  "typeof_STAGING_defined s = (Inr (staging_defined (globals s)), s)"

definition read_window :: "js_window js" where
  "read_window s =
     (case window (globals s) of
        None \<Rightarrow> (Inl ReferenceError, s)
      | Some w \<Rightarrow> (Inr w, s))"

definition window_is_window_top :: "bool js" where
  "window_is_window_top = js_bind read_window (\<lambda>w. js_return (is_top w))"

definition read_location :: "(js_location \<Rightarrow> 'a) \<Rightarrow> 'a js" where
  "read_location field = js_bind read_window (\<lambda>w. js_return (field (location w)))"

definition getBuildEnv_m :: "BuildEnvironmentKind js" where
  "getBuildEnv_m =
     js_bind typeof_DEV_defined (\<lambda>dev.
       if dev then js_return Development
       else js_bind typeof_STAGING_defined (\<lambda>staging.
         if staging then js_return Staging else js_return Production))"

definition getWindowEnv_m :: "WindowEnvironmentKind js" where
  "getWindowEnv_m =
     js_bind typeof_window_undefined (\<lambda>no_window.
       if no_window then
         js_bind (js_and typeof_self_defined typeof_self_registration_defined) (\<lambda>worker.
           if worker then js_return ServiceWorker else js_return Unknown)
       else
         js_bind window_is_window_top (\<lambda>top_most.
           if top_most then
             js_bind
               (js_or (read_location (\<lambda>l. indexOf (href l) ''initOneSignal'' \<noteq> - 1))
                  (js_and
                     (js_and (read_location (\<lambda>l. pathname l = ''/subscribe''))
                        (read_location (\<lambda>l. search l = [])))
                     (js_or (read_location (\<lambda>l. endsWith (hostname l) ''.onesignal.com''))
                        (js_or (read_location (\<lambda>l. endsWith (hostname l) ''.os.tc''))
                           (js_and
                              (read_location (\<lambda>l. indexOf (hostname l) ''.localhost'' \<noteq> - 1))
                              (js_bind getBuildEnv_m (\<lambda>b. js_return (b = Development))))))))
               (\<lambda>popup. if popup then js_return OneSignalSubscriptionPopup else js_return Host)
           else
             js_bind
               (js_or (read_location (\<lambda>l. pathname l = ''/webPushIframe''))
                  (read_location (\<lambda>l. pathname l = ''/webPushModal'')))
               (\<lambda>frame. if frame then js_return OneSignalProxyFrame
                         else js_return CustomIframe)))"

text \<open>
  A test harness that plays several roles in one process: before each call it installs the
  globals of the next context, and it keeps whatever state the calls leave behind.
\<close>

fun simulate ::
  "js_global list \<Rightarrow> process \<Rightarrow> (js_error + WindowEnvironmentKind) list \<times> process" where
  "simulate [] s = ([], s)"
| "simulate (g # gs) s =
     (case getWindowEnv_m (s\<lparr>globals := g\<rparr>) of
        (r, s1) \<Rightarrow> (case simulate gs s1 of (rs, s2) \<Rightarrow> (r # rs, s2)))"

text \<open>
  A URL object by its parts (credentials are left out). \<open>getOneSignalApiUrl\<close> gives the
  API endpoint of each build.
\<close>

record URL =
  protocol :: string
  url_hostname :: string
  port :: string
  url_pathname :: string
  url_search :: string
  url_hash :: string

definition getOneSignalApiUrl :: "BuildEnvironmentKind \<Rightarrow> URL" where
  "getOneSignalApiUrl buildEnv =
     (case buildEnv of
        Development \<Rightarrow>
          \<lparr>protocol = ''https:'', url_hostname = ''localhost'', port = ''3001'',
           url_pathname = ''/api/v1/'', url_search = [], url_hash = []\<rparr>
      | Staging \<Rightarrow>
          \<lparr>protocol = ''https:'', url_hostname = ''onesignal-staging.pw'', port = '''',
           url_pathname = ''/api/v1/'', url_search = [], url_hash = []\<rparr>
      | Production \<Rightarrow>
          \<lparr>protocol = ''https:'', url_hostname = ''onesignal.com'', port = '''',
           url_pathname = ''/api/v1'', url_search = [], url_hash = []\<rparr>)"

text \<open>
  The \<open>host\<close> of a URL is its hostname, followed by \<open>:port\<close> when the URL has a port.
  Assigning \<open>host\<close> runs the URL parser on the assigned string from its host state: the
  name ends at the first colon, slash, question mark, number sign or backslash; an
  empty name or one with a forbidden character leaves the URL as it was; the name is
  stored in lower case; after a colon, the digits up to the first non-digit are the
  port, which is dropped when it is the default of the scheme and left as it was when
  there is no digit or the number exceeds 65535. Not interpreted here: percent-escapes
  and characters outside ASCII (taken as forbidden), IPv6 literals (the bracket is
  forbidden), and names whose last label is a number (kept as written). Assigning
  \<open>pathname\<close> keeps the leading slash.
\<close>

definition url_host :: "URL \<Rightarrow> string" where
  "url_host u = (if port u = [] then url_hostname u else url_hostname u @ '':'' @ port u)"

definition ascii_lower :: "char \<Rightarrow> char" where
  "ascii_lower c =
     (if c \<in> set ''ABCDEFGHIJKLMNOPQRSTUVWXYZ'' then char_of (of_char c + (32::nat)) else c)"

definition is_digit :: "char \<Rightarrow> bool" where
  "is_digit c = (c \<in> set ''0123456789'')"

definition ends_host :: "char \<Rightarrow> bool" where
  "ends_host c = (c \<in> set '':/?#'' \<or> c = CHR 0x5C)"

definition forbidden_host_char :: "char \<Rightarrow> bool" where
  "forbidden_host_char c =
     (c \<in> set '' #/:<>?@[]^|%'' \<or> c = CHR 0x5C \<or>
      (of_char c :: nat) < 32 \<or> 127 \<le> (of_char c :: nat))"

fun digits_value :: "string \<Rightarrow> nat \<Rightarrow> nat" where
  "digits_value [] acc = acc"
| "digits_value (c # cs) acc = digits_value cs (10 * acc + (of_char c - 48))"

definition default_port :: "string \<Rightarrow> string" where
  "default_port scheme =
     (if scheme = ''https:'' \<or> scheme = ''wss:'' then ''443''
      else if scheme = ''http:'' \<or> scheme = ''ws:'' then ''80''
      else if scheme = ''ftp:'' then ''21''
      else [])"

definition port_text :: "string \<Rightarrow> string" where
  "port_text digits =
     (let d = dropWhile (\<lambda>c. c = CHR ''0'') digits in if d = [] then ''0'' else d)"

definition set_host :: "string \<Rightarrow> URL \<Rightarrow> URL" where
  "set_host h u =
     (let name = takeWhile (\<lambda>c. \<not> ends_host c) h;
          rest = dropWhile (\<lambda>c. \<not> ends_host c) h
      in if name = [] \<or> list_ex forbidden_host_char name then u
         else
           (let u1 = u\<lparr>url_hostname := map ascii_lower name\<rparr>;
                digits = (case rest of
                            [] \<Rightarrow> []
                          | c # cs \<Rightarrow> if c = CHR '':'' then takeWhile is_digit cs else [])
            in if digits = [] \<or> 65535 < digits_value digits 0 then u1
               else if port_text digits = default_port (protocol u) then u1\<lparr>port := []\<rparr>
               else u1\<lparr>port := port_text digits\<rparr>))"

definition set_pathname :: "string \<Rightarrow> URL \<Rightarrow> URL" where
  "set_pathname p u =
     (if p \<noteq> [] \<and> hd p = CHR ''/'' then u\<lparr>url_pathname := p\<rparr>
      else u\<lparr>url_pathname := CHR ''/'' # p\<rparr>)"

definition url_toString :: "URL \<Rightarrow> string" where
  "url_toString u =
     protocol u @ ''//'' @ url_host u @ url_pathname u @ url_search u @ url_hash u"


section \<open>AltOriginManager\<close>

record AppConfig =
  subdomain :: string
  useLegacyDomain :: bool

definition getCanonicalSubscriptionUrl :: "AppConfig \<Rightarrow> BuildEnvironmentKind \<Rightarrow> URL" where
  "getCanonicalSubscriptionUrl config buildEnv =
     (let u0 = getOneSignalApiUrl buildEnv;
          u1 = set_pathname '''' u0;
          u2 = set_host (join_dot (subdomain config) (url_host u1)) u1
      in if \<not> useLegacyDomain config \<and> buildEnv = Production
         then set_host (join_dot (subdomain config) ''os.tc'') u2
         else u2)"

definition getOneSignalProxyIframeUrl :: "AppConfig \<Rightarrow> BuildEnvironmentKind \<Rightarrow> URL" where
  "getOneSignalProxyIframeUrl config buildEnv =
     set_pathname ''webPushIframe'' (getCanonicalSubscriptionUrl config buildEnv)"

definition getOneSignalSubscriptionPopupUrl :: "AppConfig \<Rightarrow> BuildEnvironmentKind \<Rightarrow> URL" where
  "getOneSignalSubscriptionPopupUrl config buildEnv =
     set_pathname ''subscribe'' (getCanonicalSubscriptionUrl config buildEnv)"


section \<open>The page: DOM, promises and timers\<close>

text \<open>
  The host page as the frame controller sees it. The body holds the iframes that are
  attached. Promises are objects that several places refer to (the future that \<open>load\<close>
  returns is the one stored in the controller), so they live in a store and are named
  by their index. Messengers live in a store for the same reason.
\<close>

text \<open>What a reply callback passed to \<open>messenger.message\<close> does with the reply.\<close>

datatype reply_callback =
    ResolveWithReplyData nat
  | ResolveLoadOnComplete

record outgoing =
  out_command :: postmam_command
  out_data :: js_value
  out_onReply :: "reply_callback option"

text \<open>
  Modelled from the spec: the \<open>Postmam\<close> messenger, which the sources only import. A
  messenger is bound to a window and one origin, \<open>on\<close> registers the handler of a
  command, \<open>connect\<close> starts the handshake, \<open>message\<close> sends a command with a payload
  and an optional reply callback, and \<open>destroy\<close> unregisters every handler and can be
  repeated.
\<close>

record Postmam =
  windowReference :: nat
  sendToOrigin :: string
  receiveFromOrigin :: string
  handlers :: "postmam_command list"
  connecting :: bool
  destroyed :: bool
  outbox :: "outgoing list"

definition Postmam_new :: "nat \<Rightarrow> string \<Rightarrow> string \<Rightarrow> Postmam" where
  "Postmam_new w sendTo receiveFrom =
     \<lparr>windowReference = w, sendToOrigin = sendTo, receiveFromOrigin = receiveFrom,
      handlers = [], connecting = False, destroyed = False, outbox = []\<rparr>"

definition Postmam_on :: "postmam_command \<Rightarrow> Postmam \<Rightarrow> Postmam" where
  "Postmam_on c m =
     (if c \<in> set (handlers m) then m else m\<lparr>handlers := handlers m @ [c]\<rparr>)"

definition Postmam_connect :: "Postmam \<Rightarrow> Postmam" where
  "Postmam_connect m = m\<lparr>connecting := True\<rparr>"

definition Postmam_destroy :: "Postmam \<Rightarrow> Postmam" where
  "Postmam_destroy m = m\<lparr>handlers := [], destroyed := True\<rparr>"

definition Postmam_message ::
  "postmam_command \<Rightarrow> js_value \<Rightarrow> reply_callback option \<Rightarrow> Postmam \<Rightarrow> Postmam" where
  "Postmam_message c d cb m =
     m\<lparr>outbox := outbox m @ [\<lparr>out_command = c, out_data = d, out_onReply = cb\<rparr>]\<rparr>"

record iframe =
  elem_id :: nat
  src :: string

text \<open>
  A timer started by \<open>timeoutPromise(promise, ms)\<close>: \<open>watched\<close> is the promise it was
  given, \<open>race\<close> the promise it returned, \<open>timer_url\<close> the URL the warning names.
\<close>

record load_timer =
  timer_ms :: nat
  watched :: nat
  race :: nat
  timer_url :: string

record page =
  body :: "iframe list"
  next_elem :: nat
  promises :: "js_value promise list"
  messengers :: "Postmam list"
  timers :: "load_timer list"
  window_is_top :: bool
  warnings :: "string list"

definition empty_page :: "bool \<Rightarrow> page" where
  "empty_page is_top_window =
     \<lparr>body = [], next_elem = 0, promises = [], messengers = [], timers = [],
      window_is_top = is_top_window, warnings = []\<rparr>"

definition promise_state :: "page \<Rightarrow> nat \<Rightarrow> js_value promise option" where
  "promise_state pg r = (if r < length (promises pg) then Some (promises pg ! r) else None)"

definition settle_ref :: "nat \<Rightarrow> js_value promise \<Rightarrow> page \<Rightarrow> page" where
  "settle_ref r outcome pg =
     (if r < length (promises pg)
      then pg\<lparr>promises := (promises pg)[r := settle outcome (promises pg ! r)]\<rparr>
      else pg)"

text \<open>
  Settling a promise also settles, in the same way, every race that watches it and is
  still pending (\<open>Promise.race\<close>).
\<close>

fun settle_races :: "load_timer list \<Rightarrow> nat \<Rightarrow> js_value promise \<Rightarrow> page \<Rightarrow> page" where
  "settle_races [] r outcome pg = pg"
| "settle_races (t # ts) r outcome pg =
     settle_races ts r outcome
       (if watched t = r then settle_ref (race t) outcome pg else pg)"

definition resolve_promise :: "nat \<Rightarrow> js_value \<Rightarrow> page \<Rightarrow> page" where
  "resolve_promise r v pg =
     (case promise_state pg r of
        Some Pending \<Rightarrow> settle_races (timers pg) r (Resolved v) (settle_ref r (Resolved v) pg)
      | _ \<Rightarrow> pg)"

text \<open>
  Modelled from the spec: \<open>timeoutPromise\<close> of \<open>utils\<close>, which the sources only import.
  It returns a new promise that settles as the given one does, unless the timer elapses
  first: then it rejects with a \<open>TimeoutError\<close>. The given promise is not touched.
\<close>

definition timeoutPromise :: "nat \<Rightarrow> nat \<Rightarrow> string \<Rightarrow> page \<Rightarrow> nat \<times> page" where
  "timeoutPromise p ms u pg =
     (let r = length (promises pg)
      in (r, pg\<lparr>promises := promises pg @ [Pending],
                 timers := timers pg @
                   [\<lparr>timer_ms = ms, watched = p, race = r, timer_url = u\<rparr>]\<rparr>))"


section \<open>ProxyFrameHost\<close>

record ProxyFrameHost =
  url :: URL
  element :: "iframe option"
  messenger :: "nat option"
  loadPromise :: "nat option"

definition LOAD_TIMEOUT_MS :: nat where
  "LOAD_TIMEOUT_MS = 15000"

definition ProxyFrameHost_new :: "URL \<Rightarrow> ProxyFrameHost" where
  "ProxyFrameHost_new origin =
     \<lparr>url = set_pathname ''webPushIframe'' origin, element = None, messenger = None,
      loadPromise = None\<rparr>"

text \<open>
  \<open>removeFrame\<close>: \<open>querySelector\<close> finds the first iframe of the document whose \<open>src\<close>
  is the controller's URL, and that element is removed. (The selector text of the source
  lacks its closing bracket, which the CSS parser supplies at the end of the input.)
\<close>

definition querySelector_iframe :: "string \<Rightarrow> page \<Rightarrow> iframe option" where
  "querySelector_iframe s pg = find (\<lambda>f. src f = s) (body pg)"

definition removeFrame :: "ProxyFrameHost \<Rightarrow> page \<Rightarrow> page" where
  "removeFrame h pg =
     (case querySelector_iframe (url_toString (url h)) pg of
        None \<Rightarrow> pg
      | Some existingInstance \<Rightarrow> pg\<lparr>body := remove1 existingInstance (body pg)\<rparr>)"

text \<open>
  \<open>load\<close> runs to its \<open>return\<close> without suspending. The result is the reference of the
  promise it returns, the controller and the page. The catch handler of the timeout
  race runs when the timer fires (\<open>fire_timer\<close>).
\<close>

definition load :: "ProxyFrameHost \<Rightarrow> page \<Rightarrow> nat \<times> ProxyFrameHost \<times> page" where
  "load h pg =
     (let pg1 = removeFrame h pg;
          fr = \<lparr>elem_id = next_elem pg1, src = url_toString (url h)\<rparr>;
          pg2 = pg1\<lparr>next_elem := Suc (next_elem pg1)\<rparr>;
          p = length (promises pg2);
          h1 = h\<lparr>loadPromise := Some p\<rparr>;
          pg3 = pg2\<lparr>promises := promises pg2 @ [Pending]\<rparr>;
          pg4 = pg3\<lparr>body := body pg3 @ [fr]\<rparr>;
          h2 = h1\<lparr>element := Some fr\<rparr>;
          pg5 = snd (timeoutPromise p LOAD_TIMEOUT_MS (url_toString (url h2)) pg4)
      in (p, h2, pg5))"

definition fire_timer :: "load_timer \<Rightarrow> page \<Rightarrow> page" where
  "fire_timer t pg =
     (let pg1 = pg\<lparr>timers := remove1 t (timers pg)\<rparr>
      in if promise_state pg1 (race t) = Some Pending
         then (let pg2 = settle_ref (race t) (Rejected TimeoutError) pg1
               in if window_is_top pg2
                  then pg2\<lparr>warnings := warnings pg2 @ [timer_url t]\<rparr>
                  else pg2)
         else pg1)"

text \<open>
  \<open>establishCrossOriginMessaging\<close> destroys the previous messenger, if any, and binds a
  new one to the content window of the iframe. Without an element, reading its content
  window throws; a controller gets a messenger only here, after its element was read, so
  nothing was destroyed before that throw.
\<close>

definition host_commands :: "postmam_command list" where
  "host_commands =
     [CONNECTED, REMOTE_RETRIGGER_EVENT, REMOTE_NOTIFICATION_PERMISSION_CHANGED,
      REQUEST_HOST_URL, SERVICEWORKER_COMMAND_REDIRECT, HTTP_PERMISSION_REQUEST_RESUBSCRIBE]"

definition destroy_messenger :: "nat \<Rightarrow> page \<Rightarrow> page" where
  "destroy_messenger r pg =
     (if r < length (messengers pg)
      then pg\<lparr>messengers := (messengers pg)[r := Postmam_destroy (messengers pg ! r)]\<rparr>
      else pg)"

definition establishCrossOriginMessaging ::
  "ProxyFrameHost \<Rightarrow> page \<Rightarrow> js_error + ProxyFrameHost \<times> page" where
  "establishCrossOriginMessaging h pg =
     (let pg1 = (case messenger h of None \<Rightarrow> pg | Some old \<Rightarrow> destroy_messenger old pg)
      in case element h of
           None \<Rightarrow> Inl TypeError
         | Some fr \<Rightarrow>
             (let m0 = Postmam_new (elem_id fr) (url_toString (url h)) (url_toString (url h));
                  m1 = foldl (\<lambda>m c. Postmam_on c m) m0 host_commands;
                  m2 = Postmam_connect m1;
                  r = length (messengers pg1)
              in Inr (h\<lparr>messenger := Some r\<rparr>, pg1\<lparr>messengers := messengers pg1 @ [m2]\<rparr>)))"

definition onFrameLoad :: "ProxyFrameHost \<Rightarrow> page \<Rightarrow> js_error + ProxyFrameHost \<times> page" where
  "onFrameLoad h pg = establishCrossOriginMessaging h pg"

definition dispose :: "ProxyFrameHost \<Rightarrow> page \<Rightarrow> js_error + ProxyFrameHost \<times> page" where
  "dispose h pg =
     (case messenger h of
        None \<Rightarrow> Inl TypeError
      | Some r \<Rightarrow> Inr (h, removeFrame h (destroy_messenger r pg)))"

text \<open>
  The reply callback of \<open>IFRAME_POPUP_INITIALIZE\<close> in \<open>onMessengerConnect\<close>: the load
  promise is resolved when the frame answers \<open>REMOTE_OPERATION_COMPLETE\<close>.
\<close>

definition onInitializeReply :: "ProxyFrameHost \<Rightarrow> js_value \<Rightarrow> page \<Rightarrow> js_error + page" where
  "onInitializeReply h data pg =
     (if data = VCommand REMOTE_OPERATION_COMPLETE
      then (case loadPromise h of
              None \<Rightarrow> Inl TypeError
            | Some p \<Rightarrow> Inr (resolve_promise p VUndefined pg))
      else Inr pg)"

text \<open>
  \<open>isSubscribed\<close> creates a promise and, in its executor, sends \<open>IS_SUBSCRIBED\<close> with
  \<open>null\<close> through the messenger; an exception of the executor rejects the promise. The
  reply callback resolves the promise with the data of the reply.
\<close>

definition isSubscribed :: "ProxyFrameHost \<Rightarrow> page \<Rightarrow> nat \<times> page" where
  "isSubscribed h pg =
     (let r = length (promises pg);
          pg1 = pg\<lparr>promises := promises pg @ [Pending]\<rparr>
      in case messenger h of
           None \<Rightarrow> (r, settle_ref r (Rejected TypeError) pg1)
         | Some m \<Rightarrow>
             (if m < length (messengers pg1)
              then (r, pg1\<lparr>messengers := (messengers pg1)
                         [m := Postmam_message IS_SUBSCRIBED VNull
                                 (Some (ResolveWithReplyData r)) (messengers pg1 ! m)]\<rparr>)
              else (r, settle_ref r (Rejected TypeError) pg1)))"

definition run_reply_callback ::
  "ProxyFrameHost \<Rightarrow> reply_callback \<Rightarrow> js_value \<Rightarrow> page \<Rightarrow> js_error + page" where
  "run_reply_callback h cb data pg =
     (case cb of
        ResolveWithReplyData r \<Rightarrow> Inr (resolve_promise r data pg)
      | ResolveLoadOnComplete \<Rightarrow> onInitializeReply h data pg)"


section \<open>ProxyFrame: the handlers inside the iframe\<close>

text \<open>
  A handler is an async function: it ends by having replied and returned, or by
  rejecting when something it awaited rejected. A rejection carries the reasons it can
  have: one reason, unless it comes from \<open>Promise.all\<close>.
\<close>

datatype handler_outcome = Replied js_value bool | HandlerRejected "js_error list"

record 'd MessengerMessageEvent =
  msg_command :: postmam_command
  msg_data :: 'd

text \<open>
  \<open>onIsSubscribed\<close> awaits \<open>OneSignal.isPushNotificationsEnabled()\<close>, which is a
  parameter here: the outcome of that promise in the frame.
\<close>

definition onIsSubscribed ::
  "(js_error + bool) \<Rightarrow> js_value MessengerMessageEvent \<Rightarrow> handler_outcome" where
  "onIsSubscribed isPushNotificationsEnabled message =
     (case isPushNotificationsEnabled of
        Inl e \<Rightarrow> HandlerRejected [e]
      | Inr enabled \<Rightarrow> Replied (VBool enabled) False)"

text \<open>
  The injected key-value store: \<open>Database.get(table, key)\<close> as the outcome of the
  promise it returns.
\<close>

type_synonym Database = "string \<Rightarrow> string \<Rightarrow> js_error + js_value"

record retrieval =
  table :: string
  key :: string

text \<open>The loop of \<open>onRemoteDatabaseGet\<close> pushes one promise per retrieval, in order.\<close>

fun push_retrievals ::
  "Database \<Rightarrow> retrieval list \<Rightarrow> (js_error + js_value) list \<Rightarrow> (js_error + js_value) list" where
  "push_retrievals db [] retrievalOpPromises = retrievalOpPromises"
| "push_retrievals db (r # rs) retrievalOpPromises =
     push_retrievals db rs (retrievalOpPromises @ [db (table r) (key r)])"

text \<open>
  \<open>Promise.all\<close>: the values in the order of the promises when all of them resolve.
  When some reject, it rejects with the reason of the one that rejects first in time;
  the model does not order the promises in time, so it gives the reasons of all that
  reject, in list order, and the reason is one of them.
\<close>

fun Promise_all :: "(js_error + 'a) list \<Rightarrow> js_error list + 'a list" where
  "Promise_all [] = Inr []"
| "Promise_all (Inl e # ps) =
     (case Promise_all ps of Inl es \<Rightarrow> Inl (e # es) | Inr vs \<Rightarrow> Inl [e])"
| "Promise_all (Inr v # ps) =
     (case Promise_all ps of Inl es \<Rightarrow> Inl es | Inr vs \<Rightarrow> Inr (v # vs))"

definition onRemoteDatabaseGet ::
  "Database \<Rightarrow> retrieval list MessengerMessageEvent \<Rightarrow> handler_outcome" where
  "onRemoteDatabaseGet db message =
     (let retrievals = msg_data message;
          retrievalOpPromises = push_retrievals db retrievals []
      in case Promise_all retrievalOpPromises of
           Inl es \<Rightarrow> HandlerRejected es
         | Inr results \<Rightarrow> Replied (VList results) False)"


section \<open>Controllers on one page\<close>

text \<open>
  Several controllers share one page. An operation that throws leaves the state as it
  was. The page invariant: no two attached iframes have the same \<open>src\<close>, and every
  attached iframe was created before the next one to be created.
\<close>

record system =
  hosts :: "ProxyFrameHost list"
  sys_page :: page

datatype sys_op =
    OpNew URL
  | OpLoad nat
  | OpFrameLoad nat
  | OpDispose nat
  | OpTimer nat

definition initial_system :: "bool \<Rightarrow> system" where
  "initial_system is_top_window = \<lparr>hosts = [], sys_page = empty_page is_top_window\<rparr>"

definition sys_step :: "sys_op \<Rightarrow> system \<Rightarrow> system" where
  "sys_step op s =
     (case op of
        OpNew origin \<Rightarrow> s\<lparr>hosts := hosts s @ [ProxyFrameHost_new origin]\<rparr>
      | OpLoad i \<Rightarrow>
          (if i < length (hosts s)
           then (case load (hosts s ! i) (sys_page s) of
                   (p, h, pg) \<Rightarrow> \<lparr>hosts = (hosts s)[i := h], sys_page = pg\<rparr>)
           else s)
      | OpFrameLoad i \<Rightarrow>
          (if i < length (hosts s)
           then (case onFrameLoad (hosts s ! i) (sys_page s) of
                   Inl e \<Rightarrow> s
                 | Inr (h, pg) \<Rightarrow> \<lparr>hosts = (hosts s)[i := h], sys_page = pg\<rparr>)
           else s)
      | OpDispose i \<Rightarrow>
          (if i < length (hosts s)
           then (case dispose (hosts s ! i) (sys_page s) of
                   Inl e \<Rightarrow> s
                 | Inr (h, pg) \<Rightarrow> \<lparr>hosts = (hosts s)[i := h], sys_page = pg\<rparr>)
           else s)
      | OpTimer k \<Rightarrow>
          (if k < length (timers (sys_page s))
           then s\<lparr>sys_page := fire_timer (timers (sys_page s) ! k) (sys_page s)\<rparr>
           else s))"

fun run :: "sys_op list \<Rightarrow> system \<Rightarrow> system" where
  "run [] s = s"
| "run (op # ops) s = run ops (sys_step op s)"

definition fresh_ids :: "page \<Rightarrow> bool" where
  "fresh_ids pg = list_all (\<lambda>f. elem_id f < next_elem pg) (body pg)"

definition page_ok :: "page \<Rightarrow> bool" where
  "page_ok pg = (distinct (map src (body pg)) \<and> fresh_ids pg)"

definition frames_of :: "string \<Rightarrow> page \<Rightarrow> iframe list" where
  "frames_of u pg = filter (\<lambda>f. src f = u) (body pg)"

text \<open>
  \<open>dispose\<close> is what disposes a controller, and it does so by destroying its messenger.
  A controller is still listening when it has a messenger that was not destroyed.
\<close>

definition is_listening :: "page \<Rightarrow> ProxyFrameHost \<Rightarrow> bool" where
  "is_listening pg h =
     (case messenger h of
        None \<Rightarrow> False
      | Some r \<Rightarrow> r < length (messengers pg) \<and> destroyed (messengers pg ! r) = False)"

definition live_controllers :: "string \<Rightarrow> system \<Rightarrow> ProxyFrameHost list" where
  "live_controllers u s =
     filter (\<lambda>h. url_toString (url h) = u \<and> is_listening (sys_page s) h) (hosts s)"


section \<open>The message channel\<close>

text \<open>
  Modelled from the spec: the inbound dispatch of a channel (4.1), whose code
  (\<open>Postmam\<close>) the sources only import. A channel trusts exactly one remote origin. An
  inbound envelope whose claimed origin is another one is dropped. Otherwise, when its
  correlation id is that of a pending reply, the reply is fulfilled with the payload
  and removed, and the registry is not consulted; otherwise the handler registered for
  the command runs, and may answer with one reply payload.
\<close>

record envelope =
  correlationId :: nat
  command :: postmam_command
  payload :: js_value
  expectsReply :: bool
  sourceOriginToken :: string

record channel =
  remoteOrigin :: string
  registry :: "postmam_command \<rightharpoonup> (envelope \<Rightarrow> js_value option)"
  pendingReplies :: "nat list"
  resultSlots :: "nat \<rightharpoonup> js_value"

datatype inbound_result =
    Dropped
  | FulfilledReply nat js_value
  | RanHandler postmam_command "js_value option"
  | NoHandler

definition receive :: "channel \<Rightarrow> envelope \<Rightarrow> channel \<times> inbound_result" where
  "receive ch e =
     (if sourceOriginToken e \<noteq> remoteOrigin ch then (ch, Dropped)
      else if correlationId e \<in> set (pendingReplies ch)
      then (ch\<lparr>pendingReplies := removeAll (correlationId e) (pendingReplies ch),
               resultSlots := (resultSlots ch)(correlationId e \<mapsto> payload e)\<rparr>,
            FulfilledReply (correlationId e) (payload e))
      else (case registry ch (command e) of
              None \<Rightarrow> (ch, NoHandler)
            | Some handler \<Rightarrow> (ch, RanHandler (command e) (handler e))))"


section \<open>Alternate-origin discovery\<close>

text \<open>
  Modelled from the spec: the resolution step of \<open>discoverAltOrigin\<close> (4.4), which the
  sources only test. Each candidate of the ordered list comes with the outcome of its
  probe once it has settled. The first candidate that reports subscribed wins; when
  none does, the last candidate wins; an empty list is a configuration error.
\<close>

datatype probe_outcome = Reported bool | ProbeRejected js_error | ProbeTimedOut

datatype discovery_error = NoCandidates

record CandidateOrigin =
  priority :: nat
  host :: string

fun reports_subscribed :: "probe_outcome \<Rightarrow> bool" where
  "reports_subscribed (Reported b) = b"
| "reports_subscribed (ProbeRejected e) = False"
| "reports_subscribed ProbeTimedOut = False"

definition resolve_winner ::
  "(CandidateOrigin \<times> probe_outcome) list \<Rightarrow> discovery_error + CandidateOrigin" where
  "resolve_winner probes =
     (if probes = [] then Inl NoCandidates
      else (case find (\<lambda>cp. reports_subscribed (snd cp)) probes of
              Some cp \<Rightarrow> Inr (fst cp)
            | None \<Rightarrow> Inr (fst (last probes))))"

text \<open>The candidates in configured order, numbered from priority 0.\<close>

definition candidates_of :: "string list \<Rightarrow> CandidateOrigin list" where
  "candidates_of hs = map (\<lambda>(i, h). \<lparr>priority = i, host = h\<rparr>) (enumerate 0 hs)"


section \<open>Concrete contexts, stores and messages\<close>

definition host_window :: js_window where
  "host_window =
     \<lparr>is_top = True,
      location = \<lparr>href = ''https://example.com/'', pathname = ''/'', search = [],
                  hostname = ''example.com''\<rparr>\<rparr>"

definition frame_window :: js_window where
  "frame_window =
     \<lparr>is_top = False,
      location = \<lparr>href = ''https://acme.os.tc/webPushIframe'', pathname = ''/webPushIframe'',
                  search = [], hostname = ''acme.os.tc''\<rparr>\<rparr>"

definition host_page_ctx :: js_global where
  "host_page_ctx =
     \<lparr>window = Some host_window, self_registration = Some False, dev_defined = False,
      staging_defined = False\<rparr>"

definition frame_ctx :: js_global where
  "frame_ctx =
     \<lparr>window = Some frame_window, self_registration = Some False, dev_defined = False,
      staging_defined = False\<rparr>"

definition popup_ctx :: js_global where
  "popup_ctx =
     \<lparr>window = Some \<lparr>is_top = True,
        location = \<lparr>href = ''https://acme.os.tc/subscribe'', pathname = ''/subscribe'',
                    search = [], hostname = ''acme.os.tc''\<rparr>\<rparr>,
      self_registration = Some False, dev_defined = False, staging_defined = False\<rparr>"

definition custom_frame_ctx :: js_global where
  "custom_frame_ctx =
     \<lparr>window = Some \<lparr>is_top = False,
        location = \<lparr>href = ''https://example.com/widget'', pathname = ''/widget'',
                    search = [], hostname = ''example.com''\<rparr>\<rparr>,
      self_registration = Some False, dev_defined = False, staging_defined = False\<rparr>"

definition worker_ctx :: js_global where
  "worker_ctx =
     \<lparr>window = None, self_registration = Some True, dev_defined = False,
      staging_defined = False\<rparr>"

definition bare_ctx :: js_global where
  "bare_ctx =
     \<lparr>window = None, self_registration = None, dev_defined = False, staging_defined = False\<rparr>"

definition host_process :: process where
  "host_process = \<lparr>globals = host_page_ctx, statics = [], console = []\<rparr>"

definition test_config :: "bool \<Rightarrow> AppConfig" where
  "test_config legacy = \<lparr>subdomain = ''test'', useLegacyDomain = legacy\<rparr>"

definition demo_db :: Database where
  "demo_db t k =
     (if t = ''Ids'' \<and> k = ''userId'' then Inr (VString ''u-1'')
      else if t = ''Options'' \<and> k = ''defaultUrl'' then Inr (VString ''https://example.com'')
      else Inr VUndefined)"

definition demo_get :: "retrieval list MessengerMessageEvent" where
  "demo_get =
     \<lparr>msg_command = REMOTE_DATABASE_GET,
      msg_data = [\<lparr>table = ''Options'', key = ''defaultUrl''\<rparr>,
                  \<lparr>table = ''Ids'', key = ''userId''\<rparr>,
                  \<lparr>table = ''Ids'', key = ''registrationId''\<rparr>]\<rparr>"

definition acme_probes :: "(CandidateOrigin \<times> probe_outcome) list" where
  "acme_probes =
     zip (candidates_of [''acme.onesignal.com'', ''acme.os.tc''])
       [ProbeRejected TimeoutError, Reported False]"

definition demo_channel :: channel where
  "demo_channel =
     \<lparr>remoteOrigin = ''https://acme.os.tc'',
      registry = [IS_SUBSCRIBED \<mapsto> (\<lambda>e. Some (VBool True))],
      pendingReplies = [7],
      resultSlots = Map.empty\<rparr>"

definition forged_reply :: envelope where
  "forged_reply =
     \<lparr>correlationId = 7, command = IS_SUBSCRIBED, payload = VBool True, expectsReply = False,
      sourceOriginToken = ''https://evil.example''\<rparr>"


definition acme_origin :: URL where
  "acme_origin =
     \<lparr>protocol = ''https:'', url_hostname = ''acme.os.tc'', port = [], url_pathname = ''/'',
      url_search = [], url_hash = []\<rparr>"

definition acme_host :: ProxyFrameHost where
  "acme_host = ProxyFrameHost_new acme_origin"

definition acme_frame :: iframe where
  "acme_frame = \<lparr>elem_id = 0, src = ''https://acme.os.tc/webPushIframe''\<rparr>"

text \<open>The controller and the page after \<open>load\<close>, and after the load event of the iframe.\<close>

definition loaded_host :: ProxyFrameHost where
  "loaded_host = acme_host\<lparr>loadPromise := Some 0, element := Some acme_frame\<rparr>"

definition loaded_page :: page where
  "loaded_page =
     \<lparr>body = [acme_frame], next_elem = 1, promises = [Pending, Pending], messengers = [],
      timers = [\<lparr>timer_ms = 15000, watched = 0, race = 1,
                 timer_url = ''https://acme.os.tc/webPushIframe''\<rparr>],
      window_is_top = True, warnings = []\<rparr>"

definition connected_host :: ProxyFrameHost where
  "connected_host = loaded_host\<lparr>messenger := Some 0\<rparr>"

definition connected_page :: page where
  "connected_page =
     loaded_page\<lparr>messengers :=
       [\<lparr>windowReference = 0,
         sendToOrigin = ''https://acme.os.tc/webPushIframe'',
         receiveFromOrigin = ''https://acme.os.tc/webPushIframe'',
         handlers = host_commands, connecting = True, destroyed = False, outbox = []\<rparr>]\<rparr>"

text \<open>
  The second controller of the same origin and the page, after its \<open>load\<close> and after the
  load event of its iframe.
\<close>

definition second_frame :: iframe where
  "second_frame = \<lparr>elem_id = 1, src = ''https://acme.os.tc/webPushIframe''\<rparr>"

definition second_loaded_host :: ProxyFrameHost where
  "second_loaded_host = acme_host\<lparr>loadPromise := Some 2, element := Some second_frame\<rparr>"

definition second_loaded_page :: page where
  "second_loaded_page =
     connected_page
       \<lparr>body := [second_frame], next_elem := 2,
        promises := [Pending, Pending, Pending, Pending],
        timers := timers connected_page @
          [\<lparr>timer_ms = 15000, watched = 2, race = 3,
            timer_url = ''https://acme.os.tc/webPushIframe''\<rparr>]\<rparr>"

definition second_connected_host :: ProxyFrameHost where
  "second_connected_host = second_loaded_host\<lparr>messenger := Some 1\<rparr>"

definition second_connected_page :: page where
  "second_connected_page =
     second_loaded_page\<lparr>messengers := messengers connected_page @
       [\<lparr>windowReference = 1,
         sendToOrigin = ''https://acme.os.tc/webPushIframe'',
         receiveFromOrigin = ''https://acme.os.tc/webPushIframe'',
         handlers = host_commands, connecting = True, destroyed = False, outbox = []\<rparr>]\<rparr>"

text \<open>Two controllers of one origin, each loaded and connected in turn.\<close>

definition two_controllers :: "sys_op list" where
  "two_controllers =
     [OpNew acme_origin, OpLoad 0, OpFrameLoad 0, OpNew acme_origin, OpLoad 1, OpFrameLoad 1]"

definition two_loads :: "sys_op list" where
  "two_loads = [OpNew acme_origin, OpLoad 0, OpNew acme_origin, OpLoad 1, OpTimer 0]"


section \<open>Properties of the environment classifier\<close>

lemma getWindowEnv_host_page: "getWindowEnv host_page_ctx = Host"
  by (simp add: getWindowEnv_def host_page_ctx_def host_window_def indexOf_def endsWith_def
      getBuildEnv_def)

lemma getWindowEnv_frame: "getWindowEnv frame_ctx = OneSignalProxyFrame"
  by (simp add: getWindowEnv_def frame_ctx_def frame_window_def)

lemma getWindowEnv_popup: "getWindowEnv popup_ctx = OneSignalSubscriptionPopup"
  by (simp add: getWindowEnv_def popup_ctx_def indexOf_def endsWith_def getBuildEnv_def
      suffix_to_prefix)

lemma getWindowEnv_custom_frame: "getWindowEnv custom_frame_ctx = CustomIframe"
  by (simp add: getWindowEnv_def custom_frame_ctx_def)

lemma getWindowEnv_worker: "getWindowEnv worker_ctx = ServiceWorker"
  by (simp add: getWindowEnv_def worker_ctx_def)

lemma getWindowEnv_bare: "getWindowEnv bare_ctx = Unknown"
  by (simp add: getWindowEnv_def bare_ctx_def)

text \<open>
  Run on any state of the process, the classifier throws nothing, returns the role that
  \<open>getWindowEnv\<close> computes from the globals, and leaves the state as it found it.
\<close>

lemma getBuildEnv_m_reads: "getBuildEnv_m s = (Inr (getBuildEnv (globals s)), s)"
  by (simp add: getBuildEnv_m_def getBuildEnv_def js_bind_def js_return_def
      typeof_DEV_defined_def typeof_STAGING_defined_def)

lemma read_location_some:
  "window (globals s) = Some w \<Longrightarrow> read_location field s = (Inr (field (location w)), s)"
  by (simp add: read_location_def read_window_def js_bind_def js_return_def)

lemma getWindowEnv_m_reads: "getWindowEnv_m s = (Inr (getWindowEnv (globals s)), s)"
proof (cases "window (globals s)")
  case None
  then show ?thesis
    by (cases "self_registration (globals s)")
       (simp_all add: getWindowEnv_m_def getWindowEnv_def js_bind_def js_return_def js_and_def
        typeof_window_undefined_def typeof_self_defined_def
        typeof_self_registration_defined_def)
next
  case (Some w)
  then show ?thesis
    by (simp add: getWindowEnv_m_def getWindowEnv_def js_bind_def js_return_def js_and_def
        js_or_def typeof_window_undefined_def window_is_window_top_def read_window_def
        read_location_some getBuildEnv_m_reads)
qed

lemma simulate_reads:
  "simulate gs s =
     (map (\<lambda>g. Inr (getWindowEnv g)) gs, s\<lparr>globals := last (globals s # gs)\<rparr>)"
  by (induction gs arbitrary: s) (simp_all add: getWindowEnv_m_reads)

lemma getWindowEnv_range:
  "range getWindowEnv =
     {Host, OneSignalProxyFrame, OneSignalSubscriptionPopup, CustomIframe, ServiceWorker,
      Unknown}"
proof
  show "range getWindowEnv \<subseteq>
     {Host, OneSignalProxyFrame, OneSignalSubscriptionPopup, CustomIframe, ServiceWorker,
      Unknown}"
  proof
    fix r assume "r \<in> range getWindowEnv"
    show "r \<in> {Host, OneSignalProxyFrame, OneSignalSubscriptionPopup, CustomIframe,
      ServiceWorker, Unknown}"
      by (cases r) simp_all
  qed
next
  have "Host \<in> range getWindowEnv"
    using getWindowEnv_host_page by (metis rangeI)
  moreover have "OneSignalProxyFrame \<in> range getWindowEnv"
    using getWindowEnv_frame by (metis rangeI)
  moreover have "OneSignalSubscriptionPopup \<in> range getWindowEnv"
    using getWindowEnv_popup by (metis rangeI)
  moreover have "CustomIframe \<in> range getWindowEnv"
    using getWindowEnv_custom_frame by (metis rangeI)
  moreover have "ServiceWorker \<in> range getWindowEnv"
    using getWindowEnv_worker by (metis rangeI)
  moreover have "Unknown \<in> range getWindowEnv"
    using getWindowEnv_bare by (metis rangeI)
  ultimately show "{Host, OneSignalProxyFrame, OneSignalSubscriptionPopup, CustomIframe,
      ServiceWorker, Unknown} \<subseteq> range getWindowEnv"
    by simp
qed

text \<open>
  Claim C8. The classifier is total and has no effect: run on any state of the process,
  with its guards deciding which globals it dereferences, it throws nothing, returns
  the one role that the globals determine, and leaves the globals, the static fields
  and the console as they were. It keeps no cache: a test harness that installs one context
  after another gets, for each call, the role of the context installed for that call,
  so two calls under the same context return the same role. The roles it returns are
  exactly Host, OneSignalProxyFrame, OneSignalSubscriptionPopup, CustomIframe,
  ServiceWorker and Unknown.
\<close>

theorem getWindowEnv_total_pure:
  "getWindowEnv_m s = (Inr (getWindowEnv (globals s)), s) \<and>
   simulate gs s =
     (map (\<lambda>g. Inr (getWindowEnv g)) gs, s\<lparr>globals := last (globals s # gs)\<rparr>) \<and>
   range getWindowEnv =
     {Host, OneSignalProxyFrame, OneSignalSubscriptionPopup, CustomIframe, ServiceWorker,
      Unknown}"
  using getWindowEnv_m_reads simulate_reads getWindowEnv_range by simp

theorem getWindowEnv_total_pure_witness:
  "getWindowEnv_m host_process = (Inr Host, host_process) \<and>
   simulate [host_page_ctx, frame_ctx, worker_ctx, host_page_ctx] host_process =
     ([Inr Host, Inr OneSignalProxyFrame, Inr ServiceWorker, Inr Host], host_process)"
proof -
  have g: "globals host_process = host_page_ctx" by (simp add: host_process_def)
  have s: "host_process\<lparr>globals := host_page_ctx\<rparr> = host_process"
    by (simp add: host_process_def)
  from getWindowEnv_total_pure
    [of host_process "[host_page_ctx, frame_ctx, worker_ctx, host_page_ctx]"]
  have one: "getWindowEnv_m host_process = (Inr (getWindowEnv (globals host_process)), host_process)"
    and each: "simulate [host_page_ctx, frame_ctx, worker_ctx, host_page_ctx] host_process =
      (map (\<lambda>g. Inr (getWindowEnv g)) [host_page_ctx, frame_ctx, worker_ctx, host_page_ctx],
       host_process\<lparr>globals :=
         last (globals host_process # [host_page_ctx, frame_ctx, worker_ctx, host_page_ctx])\<rparr>)"
    by blast+
  show ?thesis
    unfolding one each
    by (simp add: g s getWindowEnv_host_page getWindowEnv_frame getWindowEnv_worker)
qed

text \<open>
  Claim C9. In a context that has a window: when the window is the top-most one the
  role is Host or OneSignalSubscriptionPopup, and neither OneSignalProxyFrame nor
  CustomIframe; when it is not, the role is OneSignalProxyFrame or CustomIframe, and
  neither Host nor OneSignalSubscriptionPopup.
\<close>

theorem getWindowEnv_top_partition:
  "window g = Some w \<Longrightarrow>
     (if is_top w
      then getWindowEnv g \<in> {Host, OneSignalSubscriptionPopup} \<and>
           getWindowEnv g \<notin> {OneSignalProxyFrame, CustomIframe}
      else getWindowEnv g \<in> {OneSignalProxyFrame, CustomIframe} \<and>
           getWindowEnv g \<notin> {Host, OneSignalSubscriptionPopup})"
  by (simp add: getWindowEnv_def)

theorem getWindowEnv_top_partition_witness:
  "window host_page_ctx = Some host_window \<and> is_top host_window \<and>
   getWindowEnv host_page_ctx \<in> {Host, OneSignalSubscriptionPopup} \<and>
   window frame_ctx = Some frame_window \<and> \<not> is_top frame_window \<and>
   getWindowEnv frame_ctx \<in> {OneSignalProxyFrame, CustomIframe}"
proof -
  have h: "window host_page_ctx = Some host_window" by (simp add: host_page_ctx_def)
  have f: "window frame_ctx = Some frame_window" by (simp add: frame_ctx_def)
  have th: "is_top host_window" by (simp add: host_window_def)
  have tf: "\<not> is_top frame_window" by (simp add: frame_window_def)
  from getWindowEnv_top_partition [OF h] getWindowEnv_top_partition [OF f] h f th tf
  show ?thesis by simp
qed


section \<open>The canonical subscription URL\<close>

text \<open>The host setter at the hosts of the test configuration.\<close>

lemma set_host_test_os_tc:
  "set_host ''test.os.tc'' u = u\<lparr>url_hostname := ''test.os.tc''\<rparr>"
  by (simp add: set_host_def Let_def ends_host_def forbidden_host_char_def ascii_lower_def)

lemma set_host_test_onesignal:
  "set_host ''test.onesignal.com'' u = u\<lparr>url_hostname := ''test.onesignal.com''\<rparr>"
  by (simp add: set_host_def Let_def ends_host_def forbidden_host_char_def ascii_lower_def)

lemma set_host_test_staging:
  "set_host ''test.onesignal-staging.pw'' u = u\<lparr>url_hostname := ''test.onesignal-staging.pw''\<rparr>"
  by (simp add: set_host_def Let_def ends_host_def forbidden_host_char_def ascii_lower_def)

lemma set_host_test_localhost:
  "protocol u = ''https:'' \<Longrightarrow>
   set_host ''test.localhost:3001'' u = u\<lparr>url_hostname := ''test.localhost'', port := ''3001''\<rparr>"
  by (simp add: set_host_def Let_def ends_host_def forbidden_host_char_def ascii_lower_def
      is_digit_def port_text_def default_port_def)

text \<open>
  Claim C1. \<open>getCanonicalSubscriptionUrl\<close> returns one URL and no list. With the legacy
  domain enabled in production its host is \<open>test.onesignal.com\<close>, with no \<open>os.tc\<close>
  fallback after it; with the legacy domain disabled in development its host is
  \<open>test.localhost:3001\<close> and not \<open>test.os.tc:3001\<close>. The short domain is used in
  production only.
\<close>

theorem getCanonicalSubscriptionUrl_single_host:
  "url_host (getCanonicalSubscriptionUrl (test_config True) Production) = ''test.onesignal.com'' \<and>
   url_host (getCanonicalSubscriptionUrl (test_config False) Development) = ''test.localhost:3001'' \<and>
   url_host (getCanonicalSubscriptionUrl (test_config False) Staging) = ''test.onesignal-staging.pw'' \<and>
   url_host (getCanonicalSubscriptionUrl (test_config False) Production) = ''test.os.tc''"
  by (simp add: getCanonicalSubscriptionUrl_def getOneSignalApiUrl_def set_pathname_def
      join_dot_def url_host_def test_config_def set_host_test_os_tc set_host_test_onesignal
      set_host_test_staging set_host_test_localhost)


section \<open>The handlers of the proxy frame\<close>

lemma push_retrievals_append:
  "push_retrievals db rs acc = acc @ map (\<lambda>r. db (table r) (key r)) rs"
  by (induction rs arbitrary: acc) simp_all

lemma Promise_all_Inr_iff: "Promise_all ps = Inr vs \<longleftrightarrow> ps = map Inr vs"
proof (induction ps arbitrary: vs)
  case Nil
  then show ?case by auto
next
  case (Cons p ps)
  show ?case
  proof (cases p)
    case (Inl e)
    then show ?thesis by (auto split: sum.splits)
  next
    case (Inr v)
    show ?thesis
    proof (cases "Promise_all ps")
      case (Inl e)
      then have "\<forall>zs. ps \<noteq> map Inr zs" using Cons.IH by auto
      with Inl Inr show ?thesis by auto
    next
      case r: (Inr zs)
      then have "ps = map Inr zs" using Cons.IH by simp
      with r Inr show ?thesis by auto
    qed
  qed
qed

lemma Promise_all_resolves:
  "\<forall>p\<in>set ps. \<exists>v. p = Inr v \<Longrightarrow> \<exists>vs. Promise_all ps = Inr vs"
  by (induction ps) auto

lemma demo_get_reply:
  "onRemoteDatabaseGet demo_db demo_get =
     Replied (VList [VString ''https://example.com'', VString ''u-1'', VUndefined]) False"
  by (simp add: onRemoteDatabaseGet_def demo_db_def demo_get_def)

text \<open>
  Claim C7. Whatever \<open>onRemoteDatabaseGet\<close> replies is a list as long as the list of
  retrievals, whose i-th element is what the store's get gives for the table and key of
  the i-th retrieval; and it does reply whenever every get of the store resolves.
\<close>

theorem onRemoteDatabaseGet_aligned:
  "(\<forall>v ret. onRemoteDatabaseGet db message = Replied v ret \<longrightarrow>
      (\<exists>results. v = VList results \<and> ret = False \<and>
         length results = length (msg_data message) \<and>
         (\<forall>i<length (msg_data message).
            db (table (msg_data message ! i)) (key (msg_data message ! i)) = Inr (results ! i)))) \<and>
   ((\<forall>r\<in>set (msg_data message). \<exists>v. db (table r) (key r) = Inr v) \<longrightarrow>
      (\<exists>results. onRemoteDatabaseGet db message = Replied (VList results) False))"
proof (intro conjI allI impI)
  fix v ret
  assume rep: "onRemoteDatabaseGet db message = Replied v ret"
  then obtain results where all: "Promise_all (push_retrievals db (msg_data message) []) = Inr results"
    and v: "v = VList results" and ret: "ret = False"
    by (auto simp: onRemoteDatabaseGet_def Let_def split: sum.splits)
  from all have eq: "map (\<lambda>r. db (table r) (key r)) (msg_data message) = map Inr results"
    by (simp add: Promise_all_Inr_iff push_retrievals_append)
  then have len: "length results = length (msg_data message)"
    by (metis length_map)
  have "\<forall>i<length (msg_data message).
          db (table (msg_data message ! i)) (key (msg_data message ! i)) = Inr (results ! i)"
  proof (intro allI impI)
    fix i assume i: "i < length (msg_data message)"
    then have "map (\<lambda>r. db (table r) (key r)) (msg_data message) ! i = map Inr results ! i"
      using eq by simp
    then show "db (table (msg_data message ! i)) (key (msg_data message ! i)) = Inr (results ! i)"
      using i len by simp
  qed
  with v ret len
  show "\<exists>results. v = VList results \<and> ret = False \<and>
         length results = length (msg_data message) \<and>
         (\<forall>i<length (msg_data message).
            db (table (msg_data message ! i)) (key (msg_data message ! i)) = Inr (results ! i))"
    by blast
next
  assume ok: "\<forall>r\<in>set (msg_data message). \<exists>v. db (table r) (key r) = Inr v"
  then have "\<forall>p\<in>set (push_retrievals db (msg_data message) []). \<exists>v. p = Inr v"
    by (auto simp: push_retrievals_append)
  then obtain vs where "Promise_all (push_retrievals db (msg_data message) []) = Inr vs"
    using Promise_all_resolves by blast
  then show "\<exists>results. onRemoteDatabaseGet db message = Replied (VList results) False"
    by (simp add: onRemoteDatabaseGet_def)
qed

theorem onRemoteDatabaseGet_aligned_witness:
  "onRemoteDatabaseGet demo_db demo_get =
     Replied (VList [VString ''https://example.com'', VString ''u-1'', VUndefined]) False \<and>
   length [VString ''https://example.com'', VString ''u-1'', VUndefined] = length (msg_data demo_get) \<and>
   demo_db (table (msg_data demo_get ! 1)) (key (msg_data demo_get ! 1)) = Inr (VString ''u-1'')"
proof -
  from onRemoteDatabaseGet_aligned [of demo_db demo_get] demo_get_reply
  obtain results where r: "VList [VString ''https://example.com'', VString ''u-1'', VUndefined] = VList results"
    and len: "length results = length (msg_data demo_get)"
    and al: "\<forall>i<length (msg_data demo_get).
            demo_db (table (msg_data demo_get ! i)) (key (msg_data demo_get ! i)) = Inr (results ! i)"
    by blast
  have "(1::nat) < length (msg_data demo_get)" by (simp add: demo_get_def)
  with al have "demo_db (table (msg_data demo_get ! 1)) (key (msg_data demo_get ! 1)) = Inr (results ! 1)"
    by blast
  with r len demo_get_reply show ?thesis by auto
qed


section \<open>Discovery and the channel\<close>

text \<open>
  Claim C2. Over a non-empty ordered list of settled probes: the first candidate, in
  configured order, that reports subscribed wins, so the lowest index wins when several
  do; when none reports subscribed, rejected and timed-out probes included, the last
  candidate wins; and for \<open>acme.onesignal.com\<close> before \<open>acme.os.tc\<close>, both subscribed,
  the winner is \<open>acme.onesignal.com\<close>.
\<close>

theorem resolve_winner_priority:
  "probes \<noteq> [] \<Longrightarrow>
   (\<forall>i<length probes.
      reports_subscribed (snd (probes ! i)) \<and> (\<forall>j<i. \<not> reports_subscribed (snd (probes ! j))) \<longrightarrow>
      resolve_winner probes = Inr (fst (probes ! i))) \<and>
   ((\<forall>cp\<in>set probes. \<not> reports_subscribed (snd cp)) \<longrightarrow>
      resolve_winner probes = Inr (fst (last probes))) \<and>
   resolve_winner
     (zip (candidates_of [''acme.onesignal.com'', ''acme.os.tc'']) [Reported True, Reported True]) =
     Inr \<lparr>priority = 0, host = ''acme.onesignal.com''\<rparr>"
proof (intro conjI allI impI)
  fix i
  assume ne: "probes \<noteq> []" and i: "i < length probes"
    and first: "reports_subscribed (snd (probes ! i)) \<and> (\<forall>j<i. \<not> reports_subscribed (snd (probes ! j)))"
  then have "find (\<lambda>cp. reports_subscribed (snd cp)) probes = Some (probes ! i)"
    unfolding find_Some_iff by blast
  with ne show "resolve_winner probes = Inr (fst (probes ! i))"
    by (simp add: resolve_winner_def)
next
  assume ne: "probes \<noteq> []" and none: "\<forall>cp\<in>set probes. \<not> reports_subscribed (snd cp)"
  then have "find (\<lambda>cp. reports_subscribed (snd cp)) probes = None"
    by (auto simp: find_None_iff)
  with ne show "resolve_winner probes = Inr (fst (last probes))"
    by (simp add: resolve_winner_def)
next
  show "resolve_winner
     (zip (candidates_of [''acme.onesignal.com'', ''acme.os.tc'']) [Reported True, Reported True]) =
     Inr \<lparr>priority = 0, host = ''acme.onesignal.com''\<rparr>"
    by (simp add: resolve_winner_def candidates_of_def)
qed

theorem resolve_winner_priority_witness:
  "acme_probes \<noteq> [] \<and>
   resolve_winner acme_probes = Inr \<lparr>priority = 1, host = ''acme.os.tc''\<rparr> \<and>
   resolve_winner (zip (candidates_of [''acme.onesignal.com'', ''acme.os.tc''])
       [Reported True, Reported True]) = Inr \<lparr>priority = 0, host = ''acme.onesignal.com''\<rparr>"
proof -
  have ne: "acme_probes \<noteq> []" by (simp add: acme_probes_def candidates_of_def)
  have none: "\<forall>cp\<in>set acme_probes. \<not> reports_subscribed (snd cp)"
    by (simp add: acme_probes_def candidates_of_def)
  have l: "fst (last acme_probes) = \<lparr>priority = 1, host = ''acme.os.tc''\<rparr>"
    by (simp add: acme_probes_def candidates_of_def)
  from resolve_winner_priority [OF ne] none l ne show ?thesis by simp
qed

text \<open>
  Claim C5. An inbound envelope whose claimed origin is not the remote origin of the
  channel is dropped: the channel is unchanged, no handler runs and nothing is
  fulfilled. In particular, when its correlation id is that of a pending reply, the
  reply stays pending and its result slot is as it was.
\<close>

theorem receive_drops_foreign_origin:
  "sourceOriginToken e \<noteq> remoteOrigin ch \<Longrightarrow>
     receive ch e = (ch, Dropped) \<and>
     (\<forall>c r. snd (receive ch e) \<noteq> RanHandler c r) \<and>
     (\<forall>i v. snd (receive ch e) \<noteq> FulfilledReply i v) \<and>
     (correlationId e \<in> set (pendingReplies ch) \<longrightarrow>
        correlationId e \<in> set (pendingReplies (fst (receive ch e))) \<and>
        resultSlots (fst (receive ch e)) (correlationId e) = resultSlots ch (correlationId e))"
  by (simp add: receive_def)

theorem receive_drops_foreign_origin_witness:
  "sourceOriginToken forged_reply \<noteq> remoteOrigin demo_channel \<and>
   correlationId forged_reply \<in> set (pendingReplies demo_channel) \<and>
   receive demo_channel forged_reply = (demo_channel, Dropped) \<and>
   resultSlots (fst (receive demo_channel forged_reply)) 7 = None \<and>
   fst (receive demo_channel (forged_reply\<lparr>sourceOriginToken := ''https://acme.os.tc''\<rparr>)) =
     demo_channel\<lparr>pendingReplies := [], resultSlots := [7 \<mapsto> VBool True]\<rparr>"
proof -
  have o: "sourceOriginToken forged_reply \<noteq> remoteOrigin demo_channel"
    by (simp add: forged_reply_def demo_channel_def)
  have p: "correlationId forged_reply \<in> set (pendingReplies demo_channel)"
    by (simp add: forged_reply_def demo_channel_def)
  have g: "fst (receive demo_channel (forged_reply\<lparr>sourceOriginToken := ''https://acme.os.tc''\<rparr>)) =
     demo_channel\<lparr>pendingReplies := [], resultSlots := [7 \<mapsto> VBool True]\<rparr>"
    by (simp add: receive_def forged_reply_def demo_channel_def)
  have s: "resultSlots demo_channel 7 = None" by (simp add: demo_channel_def)
  from receive_drops_foreign_origin [OF o] o p g s show ?thesis
    by (simp add: forged_reply_def)
qed


section \<open>The controller of a proxy frame\<close>

lemma acme_url: "url_toString (url acme_host) = ''https://acme.os.tc/webPushIframe''"
  by (simp add: acme_host_def acme_origin_def ProxyFrameHost_new_def url_toString_def url_host_def
      set_pathname_def)

lemma acme_fields:
  "messenger acme_host = None" "element acme_host = None" "loadPromise acme_host = None"
  by (simp_all add: acme_host_def ProxyFrameHost_new_def)

lemma acme_load: "load acme_host (empty_page True) = (0, loaded_host, loaded_page)"
  by (simp add: load_def Let_def acme_url loaded_host_def loaded_page_def acme_frame_def
      empty_page_def removeFrame_def querySelector_iframe_def timeoutPromise_def LOAD_TIMEOUT_MS_def)

lemma acme_connect: "onFrameLoad loaded_host loaded_page = Inr (connected_host, connected_page)"
  by (simp add: onFrameLoad_def establishCrossOriginMessaging_def Let_def loaded_host_def
      connected_host_def connected_page_def loaded_page_def acme_url acme_frame_def
      Postmam_new_def Postmam_on_def Postmam_connect_def host_commands_def acme_fields)

subsection \<open>Promises\<close>

lemma settle_ref_length [simp]: "length (promises (settle_ref r outcome pg)) = length (promises pg)"
  by (simp add: settle_ref_def)

lemma settle_ref_settled:
  "q < length (promises pg) \<Longrightarrow> promises pg ! q \<noteq> Pending \<Longrightarrow>
     promises (settle_ref r outcome pg) ! q = promises pg ! q"
  by (cases "promises pg ! q") (auto simp: settle_ref_def settle_def nth_list_update)

lemma settle_races_length [simp]:
  "length (promises (settle_races ts r outcome pg)) = length (promises pg)"
  by (induction ts arbitrary: pg) simp_all

lemma settle_races_settled:
  "q < length (promises pg) \<Longrightarrow> promises pg ! q \<noteq> Pending \<Longrightarrow>
     promises (settle_races ts r outcome pg) ! q = promises pg ! q"
  by (induction ts arbitrary: pg) (simp_all add: settle_ref_settled)

lemma resolve_promise_pending:
  assumes "promise_state pg r = Some Pending"
  shows "promise_state (resolve_promise r v pg) r = Some (Resolved v)"
proof -
  from assms have r: "r < length (promises pg)" and p: "promises pg ! r = Pending"
    by (auto simp: promise_state_def split: if_splits)
  let ?pg1 = "settle_ref r (Resolved v) pg"
  have s: "promises ?pg1 ! r = Resolved v"
    using r p by (simp add: settle_ref_def settle_def)
  have "promises (settle_races (timers pg) r (Resolved v) ?pg1) ! r = Resolved v"
    using settle_races_settled [of r ?pg1 "timers pg" r "Resolved v"] r s by simp
  then show ?thesis
    using assms r by (simp add: resolve_promise_def promise_state_def)
qed

subsection \<open>Disposing, asking and timing out\<close>

text \<open>
  Claim C10. \<open>dispose\<close> on a controller without a messenger throws a TypeError. A new
  controller has no messenger and \<open>load\<close> does not set one, so disposing a controller
  that was never loaded, or one whose iframe has not fired its load event, throws.
\<close>

theorem dispose_without_messenger_throws:
  "(messenger h = None \<longrightarrow> dispose h pg = Inl TypeError) \<and>
   messenger (ProxyFrameHost_new origin) = None \<and>
   messenger (fst (snd (load h pg))) = messenger h \<and>
   dispose (ProxyFrameHost_new origin) pg = Inl TypeError \<and>
   (case load (ProxyFrameHost_new origin) pg of (p, h1, pg1) \<Rightarrow> dispose h1 pg1 = Inl TypeError)"
  by (simp add: dispose_def ProxyFrameHost_new_def load_def Let_def)

theorem dispose_without_messenger_throws_witness:
  "messenger acme_host = None \<and> dispose acme_host (empty_page True) = Inl TypeError \<and>
   dispose loaded_host loaded_page = Inl TypeError \<and>
   dispose connected_host connected_page \<noteq> Inl TypeError"
proof -
  have m: "messenger acme_host = None" by (simp add: acme_fields)
  have ok: "dispose connected_host connected_page \<noteq> Inl TypeError"
    by (simp add: dispose_def connected_host_def)
  from dispose_without_messenger_throws [of acme_host "empty_page True" acme_origin] m ok
  show ?thesis by (simp add: acme_host_def [symmetric] acme_load)
qed

text \<open>
  Claim C6. With a messenger in place, \<open>isSubscribed\<close> sends \<open>IS_SUBSCRIBED\<close> with
  \<open>null\<close> as its data and returns a pending promise; the handler \<open>onIsSubscribed\<close> of
  the frame replies with the push-subscription state as a boolean; and the reply
  callback resolves the returned promise with that boolean.
\<close>

theorem isSubscribed_sends_and_resolves:
  "messenger h = Some m \<Longrightarrow> m < length (messengers pg) \<Longrightarrow>
   (case isSubscribed h pg of (r, pg1) \<Rightarrow>
      outbox (messengers pg1 ! m) =
        outbox (messengers pg ! m) @
          [\<lparr>out_command = IS_SUBSCRIBED, out_data = VNull,
            out_onReply = Some (ResolveWithReplyData r)\<rparr>] \<and>
      promise_state pg1 r = Some Pending \<and>
      (\<forall>b msg.
         onIsSubscribed (Inr b) msg = Replied (VBool b) False \<and>
         (\<exists>pg2. run_reply_callback h (ResolveWithReplyData r) (VBool b) pg1 = Inr pg2 \<and>
                promise_state pg2 r = Some (Resolved (VBool b)))))"
proof -
  assume m: "messenger h = Some m" and lt: "m < length (messengers pg)"
  obtain r pg1 where eq: "isSubscribed h pg = (r, pg1)" by (cases "isSubscribed h pg")
  from eq m lt have r: "r = length (promises pg)"
    and pg1: "pg1 = (pg\<lparr>promises := promises pg @ [Pending]\<rparr>)\<lparr>messengers := (messengers pg)
                         [m := Postmam_message IS_SUBSCRIBED VNull
                                 (Some (ResolveWithReplyData r)) (messengers pg ! m)]\<rparr>"
    by (auto simp: isSubscribed_def Let_def)
  have out: "outbox (messengers pg1 ! m) =
        outbox (messengers pg ! m) @
          [\<lparr>out_command = IS_SUBSCRIBED, out_data = VNull,
            out_onReply = Some (ResolveWithReplyData r)\<rparr>]"
    using lt by (simp add: pg1 Postmam_message_def)
  have pend: "promise_state pg1 r = Some Pending"
    by (simp add: pg1 r promise_state_def)
  have "\<forall>b msg.
         onIsSubscribed (Inr b) msg = Replied (VBool b) False \<and>
         (\<exists>pg2. run_reply_callback h (ResolveWithReplyData r) (VBool b) pg1 = Inr pg2 \<and>
                promise_state pg2 r = Some (Resolved (VBool b)))"
    using resolve_promise_pending [OF pend]
    by (simp add: onIsSubscribed_def run_reply_callback_def)
  with out pend eq show ?thesis by simp
qed

theorem isSubscribed_sends_and_resolves_witness:
  "messenger connected_host = Some 0 \<and> 0 < length (messengers connected_page) \<and>
   (case isSubscribed connected_host connected_page of
      (r, pg1) \<Rightarrow>
        r = 2 \<and>
        outbox (messengers pg1 ! 0) =
          [\<lparr>out_command = IS_SUBSCRIBED, out_data = VNull,
            out_onReply = Some (ResolveWithReplyData 2)\<rparr>] \<and>
        (case run_reply_callback connected_host (ResolveWithReplyData r) (VBool True) pg1 of
           Inl e \<Rightarrow> False
         | Inr pg2 \<Rightarrow> promise_state pg2 r = Some (Resolved (VBool True))))"
proof -
  have m: "messenger connected_host = Some 0" by (simp add: connected_host_def)
  have lt: "0 < length (messengers connected_page)" by (simp add: connected_page_def)
  obtain r pg1 where eq: "isSubscribed connected_host connected_page = (r, pg1)"
    by (cases "isSubscribed connected_host connected_page")
  have "fst (isSubscribed connected_host connected_page) = 2"
    by (simp add: isSubscribed_def Let_def connected_host_def connected_page_def loaded_page_def)
  with eq have r: "r = 2" by simp
  have empty: "outbox (messengers connected_page ! 0) = []" by (simp add: connected_page_def)
  from isSubscribed_sends_and_resolves [OF m lt] eq
  have out: "outbox (messengers pg1 ! 0) =
        outbox (messengers connected_page ! 0) @
          [\<lparr>out_command = IS_SUBSCRIBED, out_data = VNull,
            out_onReply = Some (ResolveWithReplyData r)\<rparr>]"
    and res: "\<exists>pg2. run_reply_callback connected_host (ResolveWithReplyData r) (VBool True) pg1 = Inr pg2 \<and>
                promise_state pg2 r = Some (Resolved (VBool True))"
    by simp_all
  from res obtain pg2 where "run_reply_callback connected_host (ResolveWithReplyData r) (VBool True) pg1 = Inr pg2"
    and "promise_state pg2 r = Some (Resolved (VBool True))" by blast
  with m lt eq r out empty show ?thesis by simp
qed

text \<open>
  Claim C3. \<open>load\<close> starts one timer of 15000 ms. When that timer fires before the
  frame has loaded, the promise that \<open>timeoutPromise\<close> returned is rejected with a
  TimeoutError and a warning is logged, but the promise that \<open>load\<close> returned is still
  pending: it is not rejected. The iframe stays attached, and a load event followed by
  the \<open>REMOTE_OPERATION_COMPLETE\<close> reply still resolves the returned promise.
\<close>

theorem load_timeout_leaves_future_pending:
  "(case load acme_host (empty_page True) of
      (p, h, pg) \<Rightarrow>
        map timer_ms (timers pg) = [15000] \<and>
        promise_state (fire_timer (timers pg ! 0) pg) p = Some Pending \<and>
        promise_state (fire_timer (timers pg ! 0) pg) p \<noteq> Some (Rejected TimeoutError) \<and>
        promise_state (fire_timer (timers pg ! 0) pg) (race (timers pg ! 0)) =
          Some (Rejected TimeoutError) \<and>
        warnings (fire_timer (timers pg ! 0) pg) = [''https://acme.os.tc/webPushIframe''] \<and>
        body (fire_timer (timers pg ! 0) pg) = [acme_frame] \<and>
        (case onFrameLoad h (fire_timer (timers pg ! 0) pg) of
           Inl e \<Rightarrow> False
         | Inr (h2, pg2) \<Rightarrow>
             (case onInitializeReply h2 (VCommand REMOTE_OPERATION_COMPLETE) pg2 of
                Inl e \<Rightarrow> False
              | Inr pg3 \<Rightarrow> promise_state pg3 p = Some (Resolved VUndefined))))"
  unfolding acme_load
  by (simp add: fire_timer_def promise_state_def settle_ref_def settle_def Let_def
      onFrameLoad_def establishCrossOriginMessaging_def onInitializeReply_def
      resolve_promise_def loaded_host_def loaded_page_def acme_fields)

text \<open>
  The same for every controller and page: firing the timer that \<open>load\<close> started
  rejects the race and leaves the returned promise pending and the body as it was.
\<close>

lemma load_timer_general:
  "load h pg = (p, h1, pg1) \<Longrightarrow>
     timers pg1 = timers pg @
       [\<lparr>timer_ms = 15000, watched = p, race = Suc p, timer_url = url_toString (url h)\<rparr>] \<and>
     promise_state pg1 p = Some Pending \<and>
     promise_state (fire_timer (last (timers pg1)) pg1) p = Some Pending \<and>
     promise_state (fire_timer (last (timers pg1)) pg1) (Suc p) = Some (Rejected TimeoutError) \<and>
     body (fire_timer (last (timers pg1)) pg1) = body pg1"
  by (auto simp: load_def Let_def timeoutPromise_def LOAD_TIMEOUT_MS_def removeFrame_def
      promise_state_def fire_timer_def settle_ref_def settle_def nth_append split: option.splits)

subsection \<open>One attached iframe for each URL\<close>

lemma find_src_remove1:
  assumes "distinct (map src xs)" and "find (\<lambda>f. src f = u) xs = Some f"
  shows "u \<notin> src ` set (remove1 f xs)"
proof -
  from assms(2) have f: "f \<in> set xs" and u: "src f = u"
    by (auto simp: find_Some_iff)
  from assms(1) have d: "distinct xs" and inj: "inj_on src (set xs)"
    by (auto simp: distinct_map)
  show ?thesis
  proof
    assume "u \<in> src ` set (remove1 f xs)"
    then obtain g where g: "g \<in> set (remove1 f xs)" and "src g = u" by auto
    with d have "g \<in> set xs" "g \<noteq> f" by auto
    with inj f u \<open>src g = u\<close> show False by (auto dest: inj_onD)
  qed
qed

lemma distinct_src_remove1:
  assumes "distinct (map src xs)"
  shows "distinct (map src (remove1 f xs))"
proof -
  from assms have "distinct xs" and inj: "inj_on src (set xs)"
    by (auto simp: distinct_map)
  then have "distinct (remove1 f xs)" by simp
  moreover have "inj_on src (set (remove1 f xs))"
    using inj set_remove1_subset by (rule inj_on_subset)
  ultimately show ?thesis by (simp add: distinct_map)
qed

lemma removeFrame_body_cases:
  "body (removeFrame h pg) =
     (case find (\<lambda>f. src f = url_toString (url h)) (body pg) of
        None \<Rightarrow> body pg | Some f \<Rightarrow> remove1 f (body pg))"
  by (simp add: removeFrame_def querySelector_iframe_def split: option.splits)

lemma removeFrame_other_fields [simp]:
  "next_elem (removeFrame h pg) = next_elem pg"
  "promises (removeFrame h pg) = promises pg"
  "timers (removeFrame h pg) = timers pg"
  "messengers (removeFrame h pg) = messengers pg"
  by (simp_all add: removeFrame_def split: option.splits)

lemma removeFrame_subset: "set (body (removeFrame h pg)) \<subseteq> set (body pg)"
proof (cases "find (\<lambda>f. src f = url_toString (url h)) (body pg)")
  case None
  then show ?thesis by (simp add: removeFrame_body_cases)
next
  case (Some f)
  then show ?thesis by (simp add: removeFrame_body_cases set_remove1_subset)
qed

lemma removeFrame_no_frame:
  "distinct (map src (body pg)) \<Longrightarrow> url_toString (url h) \<notin> src ` set (body (removeFrame h pg))"
  by (auto simp: removeFrame_body_cases find_None_iff split: option.splits dest: find_src_remove1)

lemma removeFrame_page_ok:
  assumes "page_ok pg"
  shows "page_ok (removeFrame h pg)"
proof -
  from assms have d: "distinct (map src (body pg))" and f: "fresh_ids pg"
    by (simp_all add: page_ok_def)
  have "distinct (map src (body (removeFrame h pg)))"
    using d by (simp add: removeFrame_body_cases distinct_src_remove1 split: option.splits)
  moreover have "fresh_ids (removeFrame h pg)"
    using f removeFrame_subset [of h pg] by (auto simp: fresh_ids_def list_all_iff)
  ultimately show ?thesis by (simp add: page_ok_def)
qed

lemma load_body:
  "load h pg = (p, h1, pg1) \<Longrightarrow>
     body pg1 = body (removeFrame h pg) @ [\<lparr>elem_id = next_elem pg, src = url_toString (url h)\<rparr>] \<and>
     next_elem pg1 = Suc (next_elem pg) \<and>
     element h1 = Some \<lparr>elem_id = next_elem pg, src = url_toString (url h)\<rparr> \<and> url h1 = url h"
  by (auto simp: load_def Let_def timeoutPromise_def removeFrame_def split: option.splits)

lemma load_page_ok:
  assumes "page_ok pg" and "load h pg = (p, h1, pg1)"
  shows "page_ok pg1"
proof -
  note b = load_body [OF assms(2)]
  from assms(1) have ok: "page_ok (removeFrame h pg)" by (rule removeFrame_page_ok)
  from assms(1) have nf: "url_toString (url h) \<notin> src ` set (body (removeFrame h pg))"
    by (simp add: page_ok_def removeFrame_no_frame)
  from ok nf b show ?thesis
    by (auto simp: page_ok_def fresh_ids_def list_all_iff)
qed

lemma fire_timer_body [simp]: "body (fire_timer t pg) = body pg" "next_elem (fire_timer t pg) = next_elem pg"
  by (simp_all add: fire_timer_def Let_def settle_ref_def)

lemma destroy_messenger_body [simp]:
  "body (destroy_messenger r pg) = body pg" "next_elem (destroy_messenger r pg) = next_elem pg"
  by (simp_all add: destroy_messenger_def)

lemma page_ok_cong: "body pg' = body pg \<Longrightarrow> next_elem pg' = next_elem pg \<Longrightarrow> page_ok pg' = page_ok pg"
  by (simp add: page_ok_def fresh_ids_def)

lemma onFrameLoad_page_ok:
  "page_ok pg \<Longrightarrow> onFrameLoad h pg = Inr (h1, pg1) \<Longrightarrow> page_ok pg1"
  by (auto simp: onFrameLoad_def establishCrossOriginMessaging_def Let_def page_ok_def fresh_ids_def
      split: option.splits)

lemma dispose_page_ok:
  assumes "page_ok pg" and "dispose h pg = Inr (h1, pg1)"
  shows "page_ok pg1"
proof -
  from assms(2) obtain r where pg1: "pg1 = removeFrame h (destroy_messenger r pg)"
    by (auto simp: dispose_def split: option.splits)
  have "page_ok (destroy_messenger r pg)"
    using assms(1) by (simp add: page_ok_def fresh_ids_def)
  then show ?thesis unfolding pg1 by (rule removeFrame_page_ok)
qed

lemma sys_step_page_ok: "page_ok (sys_page s) \<Longrightarrow> page_ok (sys_page (sys_step op s))"
proof (cases op)
  case (OpLoad i)
  then show "page_ok (sys_page s) \<Longrightarrow> ?thesis"
    by (auto simp: sys_step_def split: prod.splits dest: load_page_ok)
next
  case (OpFrameLoad i)
  then show "page_ok (sys_page s) \<Longrightarrow> ?thesis"
    by (auto simp: sys_step_def split: prod.splits sum.splits dest: onFrameLoad_page_ok)
next
  case (OpDispose i)
  then show "page_ok (sys_page s) \<Longrightarrow> ?thesis"
    by (auto simp: sys_step_def split: prod.splits sum.splits dest: dispose_page_ok)
next
  case (OpTimer k)
  then show "page_ok (sys_page s) \<Longrightarrow> ?thesis"
    by (auto simp: sys_step_def page_ok_def fresh_ids_def)
next
  case (OpNew u)
  then show "page_ok (sys_page s) \<Longrightarrow> ?thesis"
    by (auto simp: sys_step_def)
qed

lemma run_page_ok: "page_ok (sys_page s) \<Longrightarrow> page_ok (sys_page (run ops s))"
  by (induction ops arbitrary: s) (simp_all add: sys_step_page_ok)

lemma initial_page_ok: "page_ok (sys_page (initial_system b))"
  by (simp add: initial_system_def empty_page_def page_ok_def fresh_ids_def)


lemma distinct_src_at_most_one:
  "distinct (map src xs) \<Longrightarrow> length (filter (\<lambda>f. src f = u) xs) \<le> 1"
proof (induction xs)
  case Nil
  then show ?case by simp
next
  case (Cons a xs)
  show ?case
  proof (cases "src a = u")
    case True
    with Cons.prems have "u \<notin> src ` set xs" by auto
    then have "filter (\<lambda>f. src f = u) xs = []" by (auto simp: filter_empty_conv)
    with True show ?thesis by simp
  next
    case False
    with Cons show ?thesis by simp
  qed
qed

lemma filter_remove1_other: "\<not> P f \<Longrightarrow> filter P (remove1 f xs) = filter P xs"
  by (induction xs) auto

lemma removeFrame_frames_of_other:
  assumes "u \<noteq> url_toString (url h)"
  shows "frames_of u (removeFrame h pg) = frames_of u pg"
proof (cases "find (\<lambda>f. src f = url_toString (url h)) (body pg)")
  case None
  then show ?thesis by (simp add: frames_of_def removeFrame_body_cases)
next
  case (Some f)
  then have "src f = url_toString (url h)" by (auto simp: find_Some_iff)
  with assms have "\<not> src f = u" by simp
  then have "filter (\<lambda>f. src f = u) (remove1 f (body pg)) = filter (\<lambda>f. src f = u) (body pg)"
    by (rule filter_remove1_other)
  with Some show ?thesis by (simp add: frames_of_def removeFrame_body_cases)
qed

lemma frames_of_none: "u \<notin> src ` set (body pg) \<Longrightarrow> frames_of u pg = []"
  by (auto simp: frames_of_def filter_empty_conv)

lemma load_replaces:
  assumes ok: "page_ok pg" and l: "load h pg = (p, h1, pg1)"
  shows "frames_of (url_toString (url h)) (removeFrame h pg) = [] \<and>
      body pg1 = body (removeFrame h pg) @ [\<lparr>elem_id = next_elem pg, src = url_toString (url h)\<rparr>] \<and>
      (\<forall>old. querySelector_iframe (url_toString (url h)) pg = Some old \<longrightarrow> old \<notin> set (body pg1)) \<and>
      frames_of (url_toString (url h)) pg1 = [\<lparr>elem_id = next_elem pg, src = url_toString (url h)\<rparr>] \<and>
      element h1 = Some \<lparr>elem_id = next_elem pg, src = url_toString (url h)\<rparr> \<and>
      (\<forall>u. u \<noteq> url_toString (url h) \<longrightarrow> frames_of u pg1 = frames_of u pg)"
proof -
  let ?u = "url_toString (url h)"
  let ?new = "\<lparr>elem_id = next_elem pg, src = ?u\<rparr>"
  note b = load_body [OF l]
  from ok have d: "distinct (map src (body pg))" and fr: "fresh_ids pg"
    by (simp_all add: page_ok_def)
  have nf: "?u \<notin> src ` set (body (removeFrame h pg))"
    using d by (rule removeFrame_no_frame)
  then have none: "frames_of ?u (removeFrame h pg) = []" by (rule frames_of_none)
  have one: "frames_of ?u pg1 = [?new]"
    using b none by (simp add: frames_of_def)
  have gone: "\<forall>old. querySelector_iframe ?u pg = Some old \<longrightarrow> old \<notin> set (body pg1)"
  proof (intro allI impI)
    fix old assume q: "querySelector_iframe ?u pg = Some old"
    then have mem: "old \<in> set (body pg)" and s: "src old = ?u"
      by (auto simp: querySelector_iframe_def find_Some_iff)
    from mem fr have "elem_id old < next_elem pg" by (auto simp: fresh_ids_def list_all_iff)
    then have "old \<noteq> ?new" by auto
    moreover have "old \<notin> set (body (removeFrame h pg))" using nf s by force
    ultimately show "old \<notin> set (body pg1)" using b by simp
  qed
  have other: "\<forall>u. u \<noteq> ?u \<longrightarrow> frames_of u pg1 = frames_of u pg"
  proof (intro allI impI)
    fix u assume "u \<noteq> ?u"
    then have "frames_of u (removeFrame h pg) = frames_of u pg"
      by (rule removeFrame_frames_of_other)
    with \<open>u \<noteq> ?u\<close> b show "frames_of u pg1 = frames_of u pg"
      by (auto simp: frames_of_def)
  qed
  from none b one gone other show ?thesis by simp
qed

lemma loaded_ok: "page_ok loaded_page" by (simp add: page_ok_def fresh_ids_def loaded_page_def acme_frame_def)


text \<open>
  \<open>load\<close> touches no messenger: the controller whose iframe it removes keeps its
  messenger, and so keeps listening.
\<close>

lemma load_messengers: "load h pg = (p, h1, pg1) \<Longrightarrow> messengers pg1 = messengers pg \<and> messenger h1 = messenger h"
  by (auto simp: load_def Let_def timeoutPromise_def removeFrame_def split: option.splits)

lemma second_load: "load acme_host connected_page = (2, second_loaded_host, second_loaded_page)"
  by (simp add: load_def Let_def acme_url second_loaded_host_def second_loaded_page_def
      second_frame_def connected_page_def loaded_page_def acme_frame_def removeFrame_def
      querySelector_iframe_def timeoutPromise_def LOAD_TIMEOUT_MS_def)

lemma second_connect:
  "onFrameLoad second_loaded_host second_loaded_page =
     Inr (second_connected_host, second_connected_page)"
  by (simp add: onFrameLoad_def establishCrossOriginMessaging_def Let_def second_loaded_host_def
      second_connected_host_def second_connected_page_def second_loaded_page_def
      connected_page_def loaded_page_def acme_url second_frame_def
      Postmam_new_def Postmam_on_def Postmam_connect_def host_commands_def acme_fields)

lemma run_two_controllers:
  "run two_controllers (initial_system True) =
     \<lparr>hosts = [connected_host, second_connected_host], sys_page = second_connected_page\<rparr>"
  by (simp add: two_controllers_def sys_step_def initial_system_def acme_host_def [symmetric]
      acme_load acme_connect second_load second_connect)

lemma second_url: "url_toString (url second_connected_host) = ''https://acme.os.tc/webPushIframe''"
  "url_toString (url connected_host) = ''https://acme.os.tc/webPushIframe''"
  by (simp_all add: second_connected_host_def second_loaded_host_def connected_host_def
      loaded_host_def acme_url)

lemma both_listening:
  "is_listening second_connected_page connected_host"
  "is_listening second_connected_page second_connected_host"
  by (simp_all add: is_listening_def second_connected_host_def second_connected_page_def
      second_loaded_page_def connected_host_def connected_page_def loaded_page_def)

lemma second_body: "body second_connected_page = [second_frame]"
  by (simp add: second_connected_page_def second_loaded_page_def)

text \<open>
  With controllers counted rather than iframes, the claim fails. A second controller of
  the same URL is created, loaded and connected after the first: the iframe of the first
  is removed, so one iframe is attached, but the first controller was not disposed, and
  two controllers of that URL are listening.
\<close>

theorem one_controller_per_origin_counterexample:
  "length (live_controllers ''https://acme.os.tc/webPushIframe''
             (run two_controllers (initial_system True))) = 2 \<and>
   \<not> length (live_controllers ''https://acme.os.tc/webPushIframe''
               (run two_controllers (initial_system True))) \<le> 1 \<and>
   length (frames_of ''https://acme.os.tc/webPushIframe''
             (sys_page (run two_controllers (initial_system True)))) = 1"
  unfolding run_two_controllers
  by (simp add: live_controllers_def second_url both_listening frames_of_def second_body
      second_frame_def)

text \<open>
  Claim C4, as amended. On a page where no two attached iframes share a \<open>src\<close>, \<open>load\<close>
  first removes the attached iframe with the controller's URL, if there is one, and then
  attaches the new iframe: after the removal no iframe has that URL, the iframe removed
  is not in the body afterwards, the new iframe is the only one with that URL, the
  iframes of other URLs are untouched, and no messenger is touched. Every page reached
  from the empty page by creating, loading, connecting and disposing controllers and by
  firing timers has at most one attached iframe for each URL.
\<close>

theorem load_one_frame_per_url:
  "(page_ok pg \<longrightarrow>
      (case load h pg of
         (p, h1, pg1) \<Rightarrow>
           frames_of (url_toString (url h)) (removeFrame h pg) = [] \<and>
           body pg1 = body (removeFrame h pg) @
             [\<lparr>elem_id = next_elem pg, src = url_toString (url h)\<rparr>] \<and>
           (\<forall>old. querySelector_iframe (url_toString (url h)) pg = Some old \<longrightarrow>
                  old \<notin> set (body pg1)) \<and>
           frames_of (url_toString (url h)) pg1 =
             [\<lparr>elem_id = next_elem pg, src = url_toString (url h)\<rparr>] \<and>
           element h1 = Some \<lparr>elem_id = next_elem pg, src = url_toString (url h)\<rparr> \<and>
           (\<forall>u. u \<noteq> url_toString (url h) \<longrightarrow> frames_of u pg1 = frames_of u pg) \<and>
           page_ok pg1 \<and>
           messengers pg1 = messengers pg)) \<and>
   page_ok (sys_page (run ops (initial_system b))) \<and>
   (\<forall>u. length (frames_of u (sys_page (run ops (initial_system b)))) \<le> 1)"
proof (intro conjI impI allI)
  assume ok: "page_ok pg"
  obtain p h1 pg1 where l: "load h pg = (p, h1, pg1)" by (cases "load h pg") auto
  from load_replaces [OF ok l] load_page_ok [OF ok l] load_messengers [OF l]
  have step:
          "frames_of (url_toString (url h)) (removeFrame h pg) = [] \<and>
           body pg1 = body (removeFrame h pg) @
             [\<lparr>elem_id = next_elem pg, src = url_toString (url h)\<rparr>] \<and>
           (\<forall>old. querySelector_iframe (url_toString (url h)) pg = Some old \<longrightarrow>
                  old \<notin> set (body pg1)) \<and>
           frames_of (url_toString (url h)) pg1 =
             [\<lparr>elem_id = next_elem pg, src = url_toString (url h)\<rparr>] \<and>
           element h1 = Some \<lparr>elem_id = next_elem pg, src = url_toString (url h)\<rparr> \<and>
           (\<forall>u. u \<noteq> url_toString (url h) \<longrightarrow> frames_of u pg1 = frames_of u pg) \<and>
           page_ok pg1 \<and>
           messengers pg1 = messengers pg"
    by blast
  show "case load h pg of
         (p, h1, pg1) \<Rightarrow>
           frames_of (url_toString (url h)) (removeFrame h pg) = [] \<and>
           body pg1 = body (removeFrame h pg) @
             [\<lparr>elem_id = next_elem pg, src = url_toString (url h)\<rparr>] \<and>
           (\<forall>old. querySelector_iframe (url_toString (url h)) pg = Some old \<longrightarrow>
                  old \<notin> set (body pg1)) \<and>
           frames_of (url_toString (url h)) pg1 =
             [\<lparr>elem_id = next_elem pg, src = url_toString (url h)\<rparr>] \<and>
           element h1 = Some \<lparr>elem_id = next_elem pg, src = url_toString (url h)\<rparr> \<and>
           (\<forall>u. u \<noteq> url_toString (url h) \<longrightarrow> frames_of u pg1 = frames_of u pg) \<and>
           page_ok pg1 \<and>
           messengers pg1 = messengers pg"
    unfolding l prod.case by (rule step)
next
  show r: "page_ok (sys_page (run ops (initial_system b)))"
    using initial_page_ok by (rule run_page_ok)
  fix u
  from r have "distinct (map src (body (sys_page (run ops (initial_system b)))))"
    by (simp add: page_ok_def)
  then show "length (frames_of u (sys_page (run ops (initial_system b)))) \<le> 1"
    unfolding frames_of_def by (rule distinct_src_at_most_one)
qed

theorem load_one_frame_per_url_witness:
  "page_ok loaded_page \<and>
   querySelector_iframe (url_toString (url acme_host)) loaded_page = Some acme_frame \<and>
   (case load acme_host loaded_page of
      (p, h1, pg1) \<Rightarrow>
        acme_frame \<notin> set (body pg1) \<and>
        body pg1 = [\<lparr>elem_id = 1, src = ''https://acme.os.tc/webPushIframe''\<rparr>]) \<and>
   length (frames_of ''https://acme.os.tc/webPushIframe''
             (sys_page (run two_loads (initial_system True)))) \<le> 1"
proof -
  have q: "querySelector_iframe (url_toString (url acme_host)) loaded_page = Some acme_frame"
    by (simp add: querySelector_iframe_def acme_url loaded_page_def acme_frame_def)
  obtain p h1 pg1 where l: "load acme_host loaded_page = (p, h1, pg1)"
    by (cases "load acme_host loaded_page") auto
  have b: "body (snd (snd (load acme_host loaded_page))) =
      [\<lparr>elem_id = 1, src = ''https://acme.os.tc/webPushIframe''\<rparr>]"
    by (simp add: load_def Let_def acme_url loaded_page_def acme_frame_def
        removeFrame_def querySelector_iframe_def timeoutPromise_def)
  from load_one_frame_per_url [of loaded_page acme_host two_loads True] loaded_ok q l b
  show ?thesis by (simp add: acme_frame_def)
qed

end
